theory Spec2Isabelle
  imports
    Complex_Main
    "HOL-Library.Sublist"
    "HOL-Library.Char_ord"
    "HOL-Library.List_Lexorder"
    "HOL-Library.Product_Lexorder"
begin

section \<open>Configuration\<close>

text \<open>
  The repository holds two planners, \<^verbatim>\<open>main.py\<close> and \<^verbatim>\<open>choreography_planner.py\<close>,
  that share the search engine and differ in the priority of a state, in whether the
  catalog is walked in sorted order and in whether filler moves are counted. The module-level
  tables and constants of a planner are gathered in one record; the field \<open>variant\<close> says
  which of the two files is meant. Python floats are modelled as real numbers.
\<close>

datatype variant = ThreeTier | GoalDominant

record config =
  variant :: variant
  goals :: "string list"
  predecessors :: "(string \<times> string list) list"
  durations :: "string \<rightharpoonup> real"
  TARGET_TIME :: real
  MIN_TIME :: real
  MAX_TIME :: real
  DEFAULT_DURATION :: real
  MAX_EXPANSIONS :: nat
  MAX_STEPS :: nat
  MAX_CONSECUTIVE_REPEATS :: nat
  ALLOW_POST_FILL :: bool
  KEEP_TOP_K :: nat

text \<open>
  \<open>predecessors\<close> is the dict literal as written, in insertion order (the planner walks
  \<open>predecessors.items()\<close>); a dict has each key once.
\<close>

definition dict_ok :: "config \<Rightarrow> bool" where
  "dict_ok cfg = distinct (map fst (predecessors cfg))"

text \<open>
  \<open>list(set(valid_moves))\<close> lists the distinct elements of \<open>valid_moves\<close> in the
  iteration order of a Python set of strings, which depends on the string hashes of the
  running process. That order is a parameter of the model; \<open>set_listing\<close> says what every
  such order satisfies.
\<close>

type_synonym set_iter = "string list \<Rightarrow> string list"

definition set_listing :: "set_iter \<Rightarrow> bool" where
  "set_listing iter = (\<forall>xs. set (iter xs) = set xs \<and> distinct (iter xs))"

section \<open>Search states\<close>

record state =
  sequence :: "string list"
  goals_completed :: nat
  total_time :: real
  filler_moves :: nat
  heuristic_value :: real
  priority :: real

text \<open>\<open>State._compute_heuristic\<close>: the durations of the goals still to do.\<close>

definition compute_heuristic :: "config \<Rightarrow> nat \<Rightarrow> real" where
  "compute_heuristic cfg gc =
     sum_list (map (\<lambda>goal. case durations cfg goal of Some d \<Rightarrow> d | None \<Rightarrow> DEFAULT_DURATION cfg)
                   (drop gc (goals cfg)))"

text \<open>
  \<open>State.__init__\<close>. In \<^verbatim>\<open>main.py\<close> the priority has three tiers; in
  \<^verbatim>\<open>choreography_planner.py\<close> it is the goal penalty plus the time spent plus the heuristic
  (that class has no \<open>filler_moves\<close>; the model keeps the field at the value it is given).
\<close>

definition State :: "config \<Rightarrow> string list \<Rightarrow> nat \<Rightarrow> real \<Rightarrow> nat \<Rightarrow> state" where
  "State cfg seq gc t f =
     (let h = compute_heuristic cfg gc in
      \<lparr> sequence = seq, goals_completed = gc, total_time = t, filler_moves = f,
        heuristic_value = h,
        priority =
          (case variant cfg of
             ThreeTier \<Rightarrow>
               (let goal_penalty = of_int (int (length (goals cfg)) - int gc) * 10000;
                    filler_penalty =
                      (if gc = length (goals cfg) \<and> f < 5 then of_int (5 - int f) * 100 else 0);
                    estimated_final_time = t + h;
                    time_penalty =
                      (if estimated_final_time < MIN_TIME cfg then MIN_TIME cfg - estimated_final_time
                       else if estimated_final_time > MAX_TIME cfg then estimated_final_time - MAX_TIME cfg
                       else 0)
                in goal_penalty + filler_penalty + time_penalty)
           | GoalDominant \<Rightarrow>
               (let goal_penalty = of_int (int (length (goals cfg)) - int gc) * 1000
                in goal_penalty + t + h)) \<rparr>)"

section \<open>Helper functions\<close>

definition get_move_duration :: "config \<Rightarrow> string \<Rightarrow> real" where
  "get_move_duration cfg move =
     (case durations cfg move of Some d \<Rightarrow> d | None \<Rightarrow> DEFAULT_DURATION cfg)"

datatype py_error = KeyError

text \<open>
  \<open>can_follow\<close>: the subscript \<open>predecessors[next_move]\<close> raises \<open>KeyError\<close> on a missing
  key; the test before it returns \<open>False\<close> first.
\<close>

definition dict_subscript :: "('k \<times> 'v) list \<Rightarrow> 'k \<Rightarrow> py_error + 'v" where
  "dict_subscript d k = (case map_of d k of None \<Rightarrow> Inl KeyError | Some v \<Rightarrow> Inr v)"

definition can_follow :: "config \<Rightarrow> string \<Rightarrow> string \<Rightarrow> py_error + bool" where
  "can_follow cfg prev_move next_move =
     (if next_move \<notin> fst ` set (predecessors cfg) then Inr False
      else case dict_subscript (predecessors cfg) next_move of
             Inl e \<Rightarrow> Inl e
           | Inr preds \<Rightarrow> Inr (prev_move \<in> set preds))"

text \<open>\<open>sequence[-MAX_CONSECUTIVE_REPEATS:]\<close>; in Python \<open>xs[-0:]\<close> is the whole list.\<close>

definition recent_moves :: "nat \<Rightarrow> string list \<Rightarrow> string list" where
  "recent_moves n seq = (if n = 0 then seq else drop (length seq - n) seq)"

text \<open>The test of the inner \<open>if\<close> that leads to \<open>continue\<close>.\<close>

definition repeats_too_much :: "config \<Rightarrow> string list \<Rightarrow> string \<Rightarrow> bool" where
  "repeats_too_much cfg seq move =
     (length seq \<ge> MAX_CONSECUTIVE_REPEATS cfg \<and>
      list_all (\<lambda>m. m = move) (recent_moves (MAX_CONSECUTIVE_REPEATS cfg) seq))"

text \<open>
  The catalog in the order the \<open>for\<close> loop walks it: \<open>sorted(predecessors.items())\<close> in
  \<^verbatim>\<open>main.py\<close>, \<open>predecessors.items()\<close> in \<^verbatim>\<open>choreography_planner.py\<close>.
\<close>

definition catalog_items :: "config \<Rightarrow> (string \<times> string list) list" where
  "catalog_items cfg =
     (case variant cfg of ThreeTier \<Rightarrow> sort (predecessors cfg) | GoalDominant \<Rightarrow> predecessors cfg)"

definition get_valid_next_moves :: "config \<Rightarrow> set_iter \<Rightarrow> string \<Rightarrow> nat \<Rightarrow> string list \<Rightarrow> string list" where
  "get_valid_next_moves cfg iter current_move gc seq =
     (if gc \<ge> length (goals cfg) \<and> \<not> ALLOW_POST_FILL cfg then []
      else
        let valid_goal =
              (if gc < length (goals cfg) \<and> can_follow cfg current_move (goals cfg ! gc) = Inr True
               then [goals cfg ! gc] else []);
            completed_goals_set = set (take gc (goals cfg));
            valid_moves =
              valid_goal @
              map fst (filter (\<lambda>(move, move_preds).
                                  move \<notin> completed_goals_set \<and> current_move \<in> set move_preds \<and>
                                  \<not> repeats_too_much cfg seq move)
                              (catalog_items cfg))
        in iter valid_moves)"

definition expand_state :: "config \<Rightarrow> set_iter \<Rightarrow> state \<Rightarrow> state list" where
  "expand_state cfg iter s =
     (if length (sequence s) \<ge> MAX_STEPS cfg then []
      else
        let current_move = (if sequence s = [] then ''START'' else last (sequence s));
            next_moves = get_valid_next_moves cfg iter current_move (goals_completed s) (sequence s)
        in map (\<lambda>move.
                  let new_sequence = sequence s @ [move];
                      new_time = total_time s + get_move_duration cfg move;
                      is_next_goal = (goals_completed s < length (goals cfg) \<and>
                                      move = goals cfg ! goals_completed s);
                      new_goals_completed =
                        (if is_next_goal then goals_completed s + 1 else goals_completed s);
                      new_filler_moves =
                        (case variant cfg of
                           ThreeTier \<Rightarrow> (if is_next_goal then filler_moves s else filler_moves s + 1)
                         | GoalDominant \<Rightarrow> filler_moves s)
                  in State cfg new_sequence new_goals_completed new_time new_filler_moves)
               next_moves)"

definition is_valid_solution :: "config \<Rightarrow> state \<Rightarrow> bool" where
  "is_valid_solution cfg s = (goals_completed s \<ge> length (goals cfg))"

section \<open>The search loop\<close>

text \<open>
  The frontier holds the tuples \<open>(priority, counter, state)\<close>. Every tuple gets a fresh
  counter, so the tuples are totally ordered by their first two components and \<open>heappop\<close>
  returns the one tuple that is least in that order. The model keeps the frontier as the
  list of its tuples in ascending order: \<open>heappush\<close> inserts in place, \<open>heappop\<close> takes
  the head.
\<close>

type_synonym entry = "real \<times> nat \<times> state"

definition entry_key :: "entry \<Rightarrow> real \<times> nat" where
  "entry_key e = (fst e, fst (snd e))"

definition heappush :: "entry list \<Rightarrow> entry \<Rightarrow> entry list" where
  "heappush pq e = insort_key entry_key e pq"

fun push_all :: "state list \<Rightarrow> entry list \<Rightarrow> nat \<Rightarrow> entry list \<times> nat" where
  "push_all [] pq counter = (pq, counter)"
| "push_all (next_state # rest) pq counter =
     push_all rest (heappush pq (priority next_state, counter, next_state)) (counter + 1)"

record search =
  pq :: "entry list"
  counter :: nat
  visited :: "(string list \<times> nat) set"
  expansions :: nat
  all_solutions :: "state list"
  best_solution :: "state option"

definition initial_state :: "config \<Rightarrow> state" where
  "initial_state cfg = State cfg [] 0 0 0"

definition initial_search :: "config \<Rightarrow> search" where
  "initial_search cfg =
     \<lparr> pq = heappush [] (priority (initial_state cfg), 0, initial_state cfg),
       counter = 1, visited = {}, expansions = 0, all_solutions = [], best_solution = None \<rparr>"

text \<open>One pass through the body of the \<open>while\<close> loop of \<open>find_choreography\<close>.\<close>

definition loop_body :: "config \<Rightarrow> set_iter \<Rightarrow> search \<Rightarrow> search" where
  "loop_body cfg iter st =
     (case pq st of
        [] \<Rightarrow> st
      | (_, _, current_state) # rest \<Rightarrow>
          let state_key = (sequence current_state, goals_completed current_state) in
          if state_key \<in> visited st then st\<lparr>pq := rest\<rparr>
          else if is_valid_solution cfg current_state then
            st\<lparr> pq := rest,
                visited := insert state_key (visited st),
                all_solutions := all_solutions st @ [current_state],
                best_solution :=
                  (case best_solution st of
                     None \<Rightarrow> Some current_state
                   | Some best \<Rightarrow>
                       if priority current_state < priority best then Some current_state
                       else Some best) \<rparr>
          else
            let (pq', counter') = push_all (expand_state cfg iter current_state) rest (counter st)
            in st\<lparr> pq := pq',
                   counter := counter',
                   visited := insert state_key (visited st),
                   expansions := expansions st + 1 \<rparr>)"

function search_loop :: "config \<Rightarrow> set_iter \<Rightarrow> search \<Rightarrow> search" where
  "search_loop cfg iter st =
     (if pq st \<noteq> [] \<and> expansions st < MAX_EXPANSIONS cfg
      then search_loop cfg iter (loop_body cfg iter st)
      else st)"
  by pat_completeness auto
termination
proof (relation "measures [\<lambda>(cfg, iter, st). MAX_EXPANSIONS cfg - expansions st,
                           \<lambda>(cfg, iter, st). length (pq st)]")
  show "wf (measures [\<lambda>(cfg, iter, st). MAX_EXPANSIONS cfg - expansions st,
                      \<lambda>(cfg, iter, st). length (pq st)])"
    by simp
next
  fix cfg :: config and iter :: set_iter and st :: search
  assume "pq st \<noteq> [] \<and> expansions st < MAX_EXPANSIONS cfg"
  then show "((cfg, iter, loop_body cfg iter st), (cfg, iter, st))
             \<in> measures [\<lambda>(cfg, iter, st). MAX_EXPANSIONS cfg - expansions st,
                          \<lambda>(cfg, iter, st). length (pq st)]"
    by (auto simp: loop_body_def Let_def split: list.splits prod.splits option.splits)
qed

declare search_loop.simps [simp del]

text \<open>
  \<open>find_choreography\<close>: run the loop, sort the solutions by priority (Python's sort is
  stable, as \<open>sort_key\<close> is) and keep the first \<open>KEEP_TOP_K\<close> when there is more than one.
\<close>

definition run_search :: "config \<Rightarrow> set_iter \<Rightarrow> search" where
  "run_search cfg iter = search_loop cfg iter (initial_search cfg)"

definition find_choreography :: "config \<Rightarrow> set_iter \<Rightarrow> state option \<times> state list" where
  "find_choreography cfg iter =
     (let final = run_search cfg iter;
          sorted_solutions = sort_key priority (all_solutions final);
          alternatives =
            (if length (all_solutions final) > 1 then take (KEEP_TOP_K cfg) sorted_solutions else [])
      in (best_solution final, alternatives))"

section \<open>The two configurations of the repository\<close>

text \<open>The tables and constants of \<^verbatim>\<open>main.py\<close>.\<close>

definition main_goals :: "string list" where
  "main_goals =
     [''StandInit'', ''Hello'', ''BlowKisses'', ''StayingAlive'', ''WipeForehead'',
      ''Sit'', ''StandZero'', ''VOnEyes'', ''SitRelax'', ''Stand'', ''Crouch'']"

definition main_predecessors :: "(string \<times> string list) list" where
  "main_predecessors =
     [(''StandInit'', [''START'']),
      (''Hello'', [''Wave'', ''Clap'', ''Glory'', ''Joy'', ''ComeOn'', ''Bow'', ''StandInit'']),
      (''BlowKisses'', [''Stand'', ''ArmDance'', ''ArmDanceDX'', ''ArmDanceSX'', ''Bow'', ''Wave'', ''Hello'']),
      (''StandZero'', [''Sit'', ''SitRelax'', ''RotationFeet'', ''ArmDanceDX'', ''ArmDanceSX'', ''BirthdayDance'', ''Hello'', ''Stand'', ''BlowKisses'', ''Wave'', ''Bow'', ''Glory'']),
      (''Rhythm'', [''ArmDance'', ''ArmDanceDX'', ''ArmDanceSX'', ''Stand'', ''Bow'', ''RotationFeet'', ''StandZero'', ''Wave'']),
      (''Stand'', [''Sit'', ''SitRelax'', ''RotationFeet'', ''BirthdayDance'', ''Hello'', ''StandZero'', ''Rhythm'', ''WipeForehead'', ''Bow'', ''Wave'', ''Glory'', ''Clap'', ''Dab'']),
      (''StayingAlive'', [''PulpFiction'', ''DiagonalRight'', ''RotationFeet'', ''TheRobot'', ''Bow'', ''Stand'', ''StandZero'']),
      (''WipeForehead'', [''Stand'', ''StandZero'', ''Wave'', ''Glory'', ''Clap'', ''Bow'', ''StayingAlive'']),
      (''VOnEyes'', [''BlowKisses'', ''Hello'', ''Wave'', ''Joy'', ''ComeOn'', ''Stand'', ''WipeForehead'']),
      (''Sit'', [''Dab'', ''Stand'', ''StandZero'', ''VOnEyes'']),
      (''SitRelax'', [''PulpFiction'', ''DiagonalRight'', ''RotationFeet'', ''TheRobot'', ''Bow'', ''Stand'', ''StandZero'']),
      (''Disco'', [''Stand'', ''StandZero'', ''TheRobot'', ''PulpFiction'', ''DiagonalRight'', ''RotationFeet'', ''Crouch'']),
      (''Crouch'', [''SitRelax'', ''Crouch'', ''Dab'', ''Disco'']),
      (''Wave'', [''START'', ''StandInit'', ''Hello'', ''Stand'', ''StandZero'', ''Clap'', ''Glory'', ''Joy'', ''ComeOn'', ''Bow'']),
      (''Clap'', [''START'', ''StandInit'', ''Wave'', ''Hello'', ''Stand'', ''Joy'', ''ComeOn'', ''Glory'', ''Bow'', ''StandZero'']),
      (''Glory'', [''Wave'', ''Clap'', ''Stand'', ''StandZero'', ''Bow'', ''Joy'', ''ComeOn'']),
      (''Joy'', [''Clap'', ''Glory'', ''Hello'', ''Wave'', ''ComeOn'', ''Bow'', ''Stand'']),
      (''ComeOn'', [''Clap'', ''Joy'', ''Hello'', ''Wave'', ''Glory'', ''Bow'', ''Stand'']),
      (''Bow'', [''Stand'', ''StandZero'', ''Glory'', ''Wave'', ''Clap'', ''Joy'', ''ComeOn'']),
      (''ArmDance'', [''Stand'', ''StandZero'', ''Bow'', ''Wave'', ''Clap'', ''Glory'']),
      (''ArmDanceDX'', [''Stand'', ''Bow'', ''Wave'', ''Glory'', ''Clap'', ''StandZero'']),
      (''ArmDanceSX'', [''Stand'', ''Bow'', ''Wave'', ''Glory'', ''Clap'', ''StandZero'']),
      (''PulpFiction'', [''Stand'', ''StandZero'', ''DiagonalRight'', ''RotationFeet'', ''Wave'', ''Clap'', ''Bow'']),
      (''RotationFeet'', [''START'', ''StandInit'', ''Stand'', ''StandZero'', ''DiagonalRight'', ''Wave'', ''Glory'', ''Bow'']),
      (''DiagonalRight'', [''Stand'', ''StandZero'', ''RotationFeet'', ''PulpFiction'', ''Wave'', ''Bow'', ''Clap'']),
      (''TheRobot'', [''Stand'', ''StandZero'', ''PulpFiction'', ''DiagonalRight'', ''RotationFeet'', ''Bow'']),
      (''BirthdayDance'', [''Stand'', ''StandZero'', ''Wave'', ''Clap'', ''Bow'']),
      (''Dab'', [''Stand'', ''StandZero'', ''Bow'', ''Glory'', ''Wave'', ''Clap'', ''WipeForehead'', ''VOnEyes'']),
      (''DanceMove'', [''Stand'', ''StandZero'', ''Wave'', ''Bow'', ''Clap''])]"

definition main_durations :: "(string \<times> real) list" where
  "main_durations =
     [(''ArmDance'', 10.353), (''ArmDanceDX'', 5.097), (''BlowKisses'', 9.867),
      (''Bow'', 3.994), (''Clap'', 4.180), (''Crouch'', 5.435), (''Dab'', 3.231),
      (''Disco'', 5.152), (''Rhythm'', 3.099), (''StandInit'', 1.410),
      (''StayingAlive'', 6.030), (''VOnEyes'', 6.049)]"

definition main_config :: config where
  "main_config =
     \<lparr> variant = ThreeTier, goals = main_goals, predecessors = main_predecessors,
       durations = map_of main_durations,
       TARGET_TIME = 110.0, MIN_TIME = 100.0, MAX_TIME = 125.0, DEFAULT_DURATION = 5.0,
       MAX_EXPANSIONS = 10000, MAX_STEPS = 50, MAX_CONSECUTIVE_REPEATS = 3,
       ALLOW_POST_FILL = True, KEEP_TOP_K = 5 \<rparr>"

text \<open>
  The tables and constants of \<^verbatim>\<open>choreography_planner.py\<close>. That file has no
  \<open>MIN_TIME\<close> and no \<open>MAX_TIME\<close>, and its priority does not read them.
\<close>

definition planner_goals :: "string list" where
  "planner_goals =
     [''StandInit'', ''Hello'', ''BlowKisses'', ''StandZero'', ''Stand'', ''StayingAlive'',
      ''WipeForehead'', ''VOnEyes'', ''Sit'', ''SitRelax'', ''Crouch'']"

definition planner_predecessors :: "(string \<times> string list) list" where
  "planner_predecessors =
     [(''StandInit'', [''START'']),
      (''Hello'', [''Wave'', ''Clap'', ''Glory'', ''Joy'', ''ComeOn'', ''Bow'', ''StandInit'']),
      (''BlowKisses'', [''Stand'', ''ArmDance'', ''ArmDanceDX'', ''ArmDanceSX'', ''Bow'', ''Wave'', ''Hello'']),
      (''StandZero'', [''RotationFeet'', ''ArmDanceDX'', ''ArmDanceSX'', ''BirthdayDance'', ''Hello'', ''Stand'', ''BlowKisses'', ''Wave'', ''Bow'', ''Glory'']),
      (''Rhythm'', [''ArmDance'', ''ArmDanceDX'', ''ArmDanceSX'', ''Stand'', ''Bow'', ''RotationFeet'', ''StandZero'', ''Wave'']),
      (''Stand'', [''RotationFeet'', ''BirthdayDance'', ''Hello'', ''StandZero'', ''Rhythm'', ''WipeForehead'', ''Bow'', ''Wave'', ''Glory'', ''Clap'', ''F_Crouch'', ''Dab__'']),
      (''StayingAlive'', [''PulpFiction'', ''DiagonalRight'', ''RotationFeet'', ''TheRobot'', ''Bow'', ''Stand'', ''StandZero'']),
      (''WipeForehead'', [''Stand'', ''StandZero'', ''Wave'', ''Glory'', ''Clap'', ''Bow'', ''StayingAlive'']),
      (''VOnEyes'', [''BlowKisses'', ''Hello'', ''Wave'', ''Joy'', ''ComeOn'', ''Stand'', ''WipeForehead'']),
      (''Sit'', [''Dab__'', ''F_Crouch'', ''Stand'', ''StandZero'', ''VOnEyes'']),
      (''SitRelax'', [''Sit'', ''F_Crouch'']),
      (''Disco'', [''Stand'', ''StandZero'', ''TheRobot'', ''PulpFiction'', ''DiagonalRight'', ''RotationFeet'', ''F_Crouch'']),
      (''Crouch'', [''Sit'', ''SitRelax'', ''F_Crouch'', ''Dab__'', ''Disco'']),
      (''Wave'', [''START'', ''StandInit'', ''Hello'', ''Stand'', ''StandZero'', ''Clap'', ''Glory'', ''Joy'', ''ComeOn'', ''Bow'']),
      (''Clap'', [''START'', ''StandInit'', ''Wave'', ''Hello'', ''Stand'', ''Joy'', ''ComeOn'', ''Glory'', ''Bow'', ''StandZero'']),
      (''Glory'', [''Wave'', ''Clap'', ''Stand'', ''StandZero'', ''Bow'', ''Joy'', ''ComeOn'']),
      (''Joy'', [''Clap'', ''Glory'', ''Hello'', ''Wave'', ''ComeOn'', ''Bow'', ''Stand'']),
      (''ComeOn'', [''Clap'', ''Joy'', ''Hello'', ''Wave'', ''Glory'', ''Bow'', ''Stand'']),
      (''Bow'', [''Stand'', ''StandZero'', ''Glory'', ''Wave'', ''Clap'', ''Joy'', ''ComeOn'']),
      (''ArmDance'', [''Stand'', ''StandZero'', ''Bow'', ''Wave'', ''Clap'', ''Glory'']),
      (''ArmDanceDX'', [''Stand'', ''Bow'', ''Wave'', ''Glory'', ''Clap'', ''StandZero'']),
      (''ArmDanceSX'', [''Stand'', ''Bow'', ''Wave'', ''Glory'', ''Clap'', ''StandZero'']),
      (''PulpFiction'', [''Stand'', ''StandZero'', ''DiagonalRight'', ''RotationFeet'', ''Wave'', ''Clap'', ''Bow'']),
      (''RotationFeet'', [''START'', ''StandInit'', ''Stand'', ''StandZero'', ''DiagonalRight'', ''Wave'', ''Glory'', ''Bow'']),
      (''DiagonalRight'', [''Stand'', ''StandZero'', ''RotationFeet'', ''PulpFiction'', ''Wave'', ''Bow'', ''Clap'']),
      (''TheRobot'', [''Stand'', ''StandZero'', ''PulpFiction'', ''DiagonalRight'', ''RotationFeet'', ''Bow'']),
      (''BirthdayDance'', [''Stand'', ''StandZero'', ''Wave'', ''Clap'', ''Bow'']),
      (''Dab__'', [''Stand'', ''StandZero'', ''Bow'', ''Glory'', ''Wave'', ''Clap'', ''WipeForehead'', ''VOnEyes'']),
      (''F_Crouch'', [''Stand'', ''StandZero'', ''Dab__'', ''Bow'', ''Wave'', ''Sit'', ''SitRelax'']),
      (''DanceMove'', [''Stand'', ''StandZero'', ''Wave'', ''Bow'', ''Clap''])]"

definition planner_durations :: "(string \<times> real) list" where
  "planner_durations =
     [(''ArmDance'', 10.353), (''ArmDanceDX'', 5.097), (''BlowKisses'', 9.867),
      (''Bow'', 3.994), (''Clap'', 4.180), (''Crouch'', 30.435), (''Dab__'', 3.231),
      (''Disco'', 5.152), (''F_Crouch'', 1.439), (''Rhythm'', 3.099),
      (''StandInit'', 1.410), (''StayingAlive'', 6.030), (''VOnEyes'', 6.049),
      (''WipeForehead'', 3.0), (''Hello'', 3.0), (''StandZero'', 3.0), (''Stand'', 3.0),
      (''Sit'', 3.0), (''SitRelax'', 3.0), (''Wave'', 3.0), (''Glory'', 3.0),
      (''Joy'', 3.0), (''ComeOn'', 3.0), (''ArmDanceSX'', 3.0), (''PulpFiction'', 3.0),
      (''RotationFeet'', 3.0), (''DiagonalRight'', 3.0), (''TheRobot'', 3.0),
      (''BirthdayDance'', 3.0), (''DanceMove'', 3.0)]"

definition planner_config :: config where
  "planner_config =
     \<lparr> variant = GoalDominant, goals = planner_goals, predecessors = planner_predecessors,
       durations = map_of planner_durations,
       TARGET_TIME = 120.0, MIN_TIME = 0, MAX_TIME = 0, DEFAULT_DURATION = 3.0,
       MAX_EXPANSIONS = 10000, MAX_STEPS = 50, MAX_CONSECUTIVE_REPEATS = 3,
       ALLOW_POST_FILL = True, KEEP_TOP_K = 5 \<rparr>"

section \<open>Small configurations\<close>

text \<open>
  The scenario of the specification: \<open>goals = ["A", "B"]\<close>,
  \<open>predecessors = {"A": ["START"], "B": ["A"]}\<close>, \<open>durations = {"A": 2, "B": 3}\<close>,
  \<open>MAX_EXPANSIONS = 100\<close>, the other constants as in \<^verbatim>\<open>main.py\<close>.
\<close>

definition scenario_config :: config where
  "scenario_config =
     \<lparr> variant = ThreeTier, goals = [''A'', ''B''],
       predecessors = [(''A'', [''START'']), (''B'', [''A''])],
       durations = map_of [(''A'', 2), (''B'', 3)],
       TARGET_TIME = 110.0, MIN_TIME = 100.0, MAX_TIME = 125.0, DEFAULT_DURATION = 5.0,
       MAX_EXPANSIONS = 100, MAX_STEPS = 50, MAX_CONSECUTIVE_REPEATS = 3,
       ALLOW_POST_FILL = True, KEEP_TOP_K = 5 \<rparr>"


text \<open>The scenario with sequences of at most one move.\<close>

definition dead_end_config :: config where
  "dead_end_config = scenario_config\<lparr> MAX_STEPS := 1 \<rparr>"

text \<open>
  A goal list that asks for the same move four times running:
  \<open>goals = ["A", "A", "A", "A"]\<close>, \<open>predecessors = {"A": ["START", "A"]}\<close>,
  \<open>durations = {}\<close>, the constants of \<^verbatim>\<open>main.py\<close>.
\<close>

definition repeat_config :: config where
  "repeat_config =
     \<lparr> variant = ThreeTier, goals = [''A'', ''A'', ''A'', ''A''],
       predecessors = [(''A'', [''START'', ''A''])],
       durations = map_of [],
       TARGET_TIME = 110.0, MIN_TIME = 100.0, MAX_TIME = 125.0, DEFAULT_DURATION = 5.0,
       MAX_EXPANSIONS = 10000, MAX_STEPS = 50, MAX_CONSECUTIVE_REPEATS = 3,
       ALLOW_POST_FILL = True, KEEP_TOP_K = 5 \<rparr>"

text \<open>
  Two ways to the one goal: \<open>goals = ["G"]\<close>,
  \<open>predecessors = {"G": ["A", "B"], "A": ["START"], "B": ["START"]}\<close>, \<open>durations = {}\<close>,
  the constants of \<^verbatim>\<open>main.py\<close>.
\<close>

definition tie_config :: config where
  "tie_config =
     \<lparr> variant = ThreeTier, goals = [''G''],
       predecessors = [(''G'', [''A'', ''B'']), (''A'', [''START'']), (''B'', [''START''])],
       durations = map_of [],
       TARGET_TIME = 110.0, MIN_TIME = 100.0, MAX_TIME = 125.0, DEFAULT_DURATION = 5.0,
       MAX_EXPANSIONS = 10000, MAX_STEPS = 50, MAX_CONSECUTIVE_REPEATS = 3,
       ALLOW_POST_FILL = True, KEEP_TOP_K = 5 \<rparr>"


section \<open>Writing the solution\<close>





section \<open>Reachable states\<close>

text \<open>
  The states that repeated expansion produces from the initial state, and those among them
  that the search loop can produce: the loop expands a state only when it is not a solution.
\<close>

inductive reachable :: "config \<Rightarrow> set_iter \<Rightarrow> state \<Rightarrow> bool" for cfg iter where
  reachable_initial: "reachable cfg iter (initial_state cfg)"
| reachable_expand:
    "reachable cfg iter s \<Longrightarrow> s' \<in> set (expand_state cfg iter s) \<Longrightarrow> reachable cfg iter s'"

inductive explored :: "config \<Rightarrow> set_iter \<Rightarrow> state \<Rightarrow> bool" for cfg iter where
  explored_initial: "explored cfg iter (initial_state cfg)"
| explored_expand:
    "explored cfg iter s \<Longrightarrow> \<not> is_valid_solution cfg s \<Longrightarrow>
     s' \<in> set (expand_state cfg iter s) \<Longrightarrow> explored cfg iter s'"

section \<open>Notions of the specification\<close>

text \<open>
  The length of the longest prefix of the goal list that is a subsequence, in order and
  not necessarily contiguous, of a sequence of moves.
\<close>

definition longest_goal_prefix :: "string list \<Rightarrow> string list \<Rightarrow> nat" where
  "longest_goal_prefix gs seq =
     Max (set (filter (\<lambda>k. subseq (take k gs) seq) [0..<Suc (length gs)]))"

text \<open>The scan that computes it: walk the sequence and advance in the goal list on a match.\<close>

fun goal_match :: "string list \<Rightarrow> string list \<Rightarrow> nat" where
  "goal_match [] ms = 0"
| "goal_match (g # gs) [] = 0"
| "goal_match (g # gs) (m # ms) = (if m = g then Suc (goal_match gs ms) else goal_match (g # gs) ms)"

text \<open>
  \<open>predecessorsOf\<close>: the configured predecessor set of a move (no move precedes a move
  that the configuration does not know).
\<close>

definition predecessorsOf :: "config \<Rightarrow> string \<Rightarrow> string set" where
  "predecessorsOf cfg move =
     (case map_of (predecessors cfg) move of None \<Rightarrow> {} | Some preds \<Rightarrow> set preds)"

text \<open>A sequence in which every move may follow the one before it, the first one \<open>prev\<close>.\<close>

fun follows_chain :: "config \<Rightarrow> string \<Rightarrow> string list \<Rightarrow> bool" where
  "follows_chain cfg prev [] = True"
| "follows_chain cfg prev (m # ms) = (prev \<in> predecessorsOf cfg m \<and> follows_chain cfg m ms)"

section \<open>The invariant of the search loop\<close>

text \<open>
  Every state in the frontier was produced by expanding states that are not solutions;
  every collected solution is such a state and is a solution; the best solution is one of
  the collected ones.
\<close>

definition search_inv :: "config \<Rightarrow> set_iter \<Rightarrow> search \<Rightarrow> bool" where
  "search_inv cfg iter st =
     ((\<forall>e \<in> set (pq st). explored cfg iter (snd (snd e))) \<and>
      (\<forall>s \<in> set (all_solutions st). explored cfg iter s \<and> is_valid_solution cfg s) \<and>
      (\<forall>b. best_solution st = Some b \<longrightarrow> b \<in> set (all_solutions st)))"

section \<open>Properties\<close>

subsection \<open>The greedy scan finds the longest goal prefix\<close>

lemma goal_match_le: "goal_match gs ms \<le> length gs"
  by (induction gs ms rule: goal_match.induct) auto

lemma goal_match_Nil2 [simp]: "goal_match gs [] = 0"
  by (cases gs) auto

lemma subseq_take_iff:
  "k \<le> length gs \<Longrightarrow> subseq (take k gs) ms \<longleftrightarrow> k \<le> goal_match gs ms"
proof (induction gs ms arbitrary: k rule: goal_match.induct)
  case (1 ms)
  then show ?case by simp
next
  case (2 g gs)
  then show ?case by (cases k) auto
next
  case (3 g gs m ms)
  show ?case
  proof (cases k)
    case 0
    then show ?thesis by simp
  next
    case (Suc j)
    show ?thesis
    proof (cases "m = g")
      case True
      with Suc "3.prems" "3.IH"(1) [of j] show ?thesis by simp
    next
      case False
      with Suc "3.prems" "3.IH"(2) [of k] show ?thesis by simp
    qed
  qed
qed

lemma longest_goal_prefix_eq: "longest_goal_prefix gs ms = goal_match gs ms"
proof -
  let ?S = "set (filter (\<lambda>k. subseq (take k gs) ms) [0..<Suc (length gs)])"
  have "?S = {k. k \<le> length gs \<and> subseq (take k gs) ms}"
    by (auto simp del: upt_Suc)
  also have "\<dots> = {k. k \<le> goal_match gs ms}"
    using goal_match_le [of gs ms] subseq_take_iff [of _ gs ms] by auto
  finally have S: "?S = {k. k \<le> goal_match gs ms}" .
  have "Max {k. k \<le> goal_match gs ms} = goal_match gs ms"
    by (rule Max_eqI) auto
  with S show ?thesis by (simp add: longest_goal_prefix_def)
qed

lemma goal_match_snoc:
  "goal_match gs (ms @ [m]) =
     (if goal_match gs ms < length gs \<and> m = gs ! goal_match gs ms
      then goal_match gs ms + 1 else goal_match gs ms)"
  by (induction gs ms rule: goal_match.induct) auto

subsection \<open>Invariants of reachable states\<close>

lemma State_sel [simp]:
  "sequence (State cfg seq gc t f) = seq"
  "goals_completed (State cfg seq gc t f) = gc"
  "total_time (State cfg seq gc t f) = t"
  "filler_moves (State cfg seq gc t f) = f"
  by (simp_all add: State_def Let_def)

lemma expand_state_cases:
  assumes "s' \<in> set (expand_state cfg iter s)"
  obtains move where
    "length (sequence s) < MAX_STEPS cfg"
    "move \<in> set (get_valid_next_moves cfg iter
                    (if sequence s = [] then ''START'' else last (sequence s))
                    (goals_completed s) (sequence s))"
    "sequence s' = sequence s @ [move]"
    "goals_completed s' =
       (if goals_completed s < length (goals cfg) \<and> move = goals cfg ! goals_completed s
        then goals_completed s + 1 else goals_completed s)"
    "total_time s' = total_time s + get_move_duration cfg move"
  using assms by (auto simp: expand_state_def Let_def split: if_splits)

lemma reachable_goal_match:
  "reachable cfg iter s \<Longrightarrow> goals_completed s = goal_match (goals cfg) (sequence s)"
proof (induction rule: reachable.induct)
  case reachable_initial
  show ?case by (simp add: initial_state_def)
next
  case (reachable_expand s s')
  from reachable_expand.hyps(2) show ?case
    by (rule expand_state_cases) (simp add: reachable_expand.IH goal_match_snoc)
qed


lemma explored_reachable: "explored cfg iter s \<Longrightarrow> reachable cfg iter s"
  by (induction rule: explored.induct) (auto intro: reachable.intros)

subsection \<open>The search loop keeps its invariant\<close>

lemma set_heappush: "set (heappush q e) = insert e (set q)"
  by (simp add: heappush_def set_insort_key)

lemma push_all_pred:
  assumes "\<forall>e \<in> set q. P (snd (snd e))" and "\<forall>s \<in> set ss. P s"
  shows "\<forall>e \<in> set (fst (push_all ss q c)). P (snd (snd e))"
  using assms
proof (induction ss arbitrary: q c)
  case Nil
  then show ?case by simp
next
  case (Cons s ss)
  have "\<forall>e \<in> set (heappush q (priority s, c, s)). P (snd (snd e))"
    using Cons.prems by (simp add: set_heappush)
  moreover have "\<forall>s \<in> set ss. P s"
    using Cons.prems by simp
  ultimately have "\<forall>e \<in> set (fst (push_all ss (heappush q (priority s, c, s)) (c + 1))).
                      P (snd (snd e))"
    by (rule Cons.IH)
  then show ?case by simp
qed

lemma initial_search_inv: "search_inv cfg iter (initial_search cfg)"
  by (simp add: search_inv_def initial_search_def set_heappush explored_initial)

lemma loop_body_inv:
  assumes "search_inv cfg iter st"
  shows "search_inv cfg iter (loop_body cfg iter st)"
proof (cases "pq st")
  case Nil
  with assms show ?thesis by (simp add: loop_body_def)
next
  case (Cons e rest)
  obtain p c cur where e: "e = (p, c, cur)" by (cases e) auto
  from assms Cons e have cur: "explored cfg iter cur"
    and rest: "\<forall>e \<in> set rest. explored cfg iter (snd (snd e))"
    by (auto simp: search_inv_def)
  show ?thesis
  proof (cases "(sequence cur, goals_completed cur) \<in> visited st")
    case True
    with assms Cons e rest show ?thesis
      by (simp add: loop_body_def search_inv_def)
  next
    case unvisited: False
    show ?thesis
    proof (cases "is_valid_solution cfg cur")
      case True
      with assms Cons e rest cur unvisited show ?thesis
        by (auto simp: loop_body_def search_inv_def split: option.splits)
    next
      case False
      with cur have "\<forall>s \<in> set (expand_state cfg iter cur). explored cfg iter s"
        by (auto intro: explored_expand)
      with rest have "\<forall>e \<in> set (fst (push_all (expand_state cfg iter cur) rest (counter st))).
                         explored cfg iter (snd (snd e))"
        by (rule push_all_pred)
      with assms Cons e unvisited False show ?thesis
        by (auto simp: loop_body_def search_inv_def split: prod.splits)
    qed
  qed
qed

lemma search_loop_inv:
  "search_inv cfg iter st \<Longrightarrow> search_inv cfg iter (search_loop cfg iter st)"
proof (induction cfg iter st rule: search_loop.induct)
  case (1 cfg iter st)
  show ?case
  proof (cases "pq st \<noteq> [] \<and> expansions st < MAX_EXPANSIONS cfg")
    case True
    with 1 show ?thesis
      by (subst search_loop.simps) (simp add: loop_body_inv)
  next
    case False
    with 1 show ?thesis
      by (subst search_loop.simps) auto
  qed
qed

lemma run_search_inv: "search_inv cfg iter (run_search cfg iter)"
  unfolding run_search_def by (rule search_loop_inv) (rule initial_search_inv)

lemma produced_solution:
  assumes "find_choreography cfg iter = (best, alts)"
    and "sol \<in> set_option best \<union> set alts"
  shows "explored cfg iter sol \<and> is_valid_solution cfg sol"
proof -
  have inv: "search_inv cfg iter (run_search cfg iter)" by (rule run_search_inv)
  from assms(1) have best: "best = best_solution (run_search cfg iter)"
    and alts: "set alts \<subseteq> set (all_solutions (run_search cfg iter))"
    by (auto simp: find_choreography_def Let_def split: if_splits dest: in_set_takeD)
  from assms(2) best alts have "sol \<in> set (all_solutions (run_search cfg iter))"
    using inv by (auto simp: search_inv_def)
  with inv show ?thesis by (simp add: search_inv_def)
qed

text \<open>
  The frontier stays in ascending order of \<open>(priority, counter)\<close>, so its head is the tuple
  that \<open>heappop\<close> returns.
\<close>

lemma heappush_sorted:
  "sorted (map entry_key q) \<Longrightarrow> sorted (map entry_key (heappush q e))"
  by (simp add: heappush_def sorted_insort_key)

lemma push_all_sorted:
  "sorted (map entry_key q) \<Longrightarrow> sorted (map entry_key (fst (push_all ss q c)))"
  by (induction ss arbitrary: q c) (simp_all add: heappush_sorted)

lemma loop_body_sorted:
  assumes "sorted (map entry_key (pq st))"
  shows "sorted (map entry_key (pq (loop_body cfg iter st)))"
proof (cases "pq st")
  case Nil
  then show ?thesis by (simp add: loop_body_def)
next
  case (Cons e rest)
  with assms have "sorted (map entry_key rest)" by simp
  then have "sorted (map entry_key (fst (push_all (expand_state cfg iter (snd (snd e))) rest (counter st))))"
    by (rule push_all_sorted)
  with Cons \<open>sorted (map entry_key rest)\<close> show ?thesis
    by (auto simp: loop_body_def Let_def split: prod.splits)
qed

lemma search_loop_sorted:
  "sorted (map entry_key (pq st)) \<Longrightarrow> sorted (map entry_key (pq (search_loop cfg iter st)))"
proof (induction cfg iter st rule: search_loop.induct)
  case (1 cfg iter st)
  show ?case
  proof (cases "pq st \<noteq> [] \<and> expansions st < MAX_EXPANSIONS cfg")
    case True
    with 1 show ?thesis
      by (subst search_loop.simps) (simp add: loop_body_sorted)
  next
    case False
    with 1 show ?thesis
      by (subst search_loop.simps) auto
  qed
qed

lemma head_is_least:
  "sorted (map entry_key (e # rest)) \<Longrightarrow> \<forall>e' \<in> set rest. entry_key e \<le> entry_key e'"
  by simp

subsection \<open>Where a solution ends, and the order of its moves\<close>

lemma can_follow_total:
  "can_follow cfg prev_move next_move =
     Inr (case map_of (predecessors cfg) next_move of
            None \<Rightarrow> False
          | Some preds \<Rightarrow> prev_move \<in> set preds)"
  by (force simp: can_follow_def dict_subscript_def map_of_eq_None_iff split: option.splits
        dest: map_of_SomeD)

lemma explored_solution_last:
  assumes "explored cfg iter s" and "is_valid_solution cfg s" and "goals cfg \<noteq> []"
  shows "sequence s \<noteq> [] \<and> last (sequence s) = last (goals cfg) \<and>
         \<not> subseq (goals cfg) (butlast (sequence s))"
  using assms(1)
proof (cases rule: explored.cases)
  case explored_initial
  with assms(2,3) show ?thesis
    by (simp add: is_valid_solution_def initial_state_def)
next
  case (explored_expand p)
  from explored_expand(3) obtain move where
    seq: "sequence s = sequence p @ [move]" and
    gc: "goals_completed s =
           (if goals_completed p < length (goals cfg) \<and> move = goals cfg ! goals_completed p
            then goals_completed p + 1 else goals_completed p)"
    by (rule expand_state_cases)
  from explored_expand(2) have lt: "goals_completed p < length (goals cfg)"
    by (simp add: is_valid_solution_def)
  with gc assms(2) have mv: "move = goals cfg ! goals_completed p"
    and full: "goals_completed p + 1 = length (goals cfg)"
    by (auto simp: is_valid_solution_def split: if_splits)
  from full have "goals_completed p = length (goals cfg) - 1"
    by simp
  with assms(3) have "move = last (goals cfg)"
    unfolding mv by (simp add: last_conv_nth)
  moreover have "\<not> subseq (goals cfg) (sequence p)"
  proof -
    have "goals_completed p = goal_match (goals cfg) (sequence p)"
      by (rule reachable_goal_match [OF explored_reachable [OF explored_expand(1)]])
    with lt subseq_take_iff [of "length (goals cfg)" "goals cfg" "sequence p"]
    show ?thesis by simp
  qed
  ultimately show ?thesis using seq by simp
qed

lemma valid_next_move_precedes:
  assumes "set_listing iter" and "dict_ok cfg"
    and "move \<in> set (get_valid_next_moves cfg iter cur gc seq)"
  shows "cur \<in> predecessorsOf cfg move"
proof -
  have items: "set (catalog_items cfg) = set (predecessors cfg)"
    by (simp add: catalog_items_def split: variant.splits)
  from assms(1) have it: "\<And>xs. set (iter xs) = set xs"
    by (simp add: set_listing_def)
  from assms(3) consider
      (goal) "can_follow cfg cur move = Inr True"
    | (catalog) preds where "(move, preds) \<in> set (predecessors cfg)" "cur \<in> set preds"
    by (auto simp: get_valid_next_moves_def Let_def it items split: if_splits)
  then show ?thesis
  proof cases
    case goal
    then show ?thesis
      by (auto simp: can_follow_total predecessorsOf_def split: option.splits)
  next
    case catalog
    with assms(2) have "map_of (predecessors cfg) move = Some preds"
      by (simp add: dict_ok_def)
    with catalog show ?thesis by (simp add: predecessorsOf_def)
  qed
qed

lemma follows_chain_snoc:
  "follows_chain cfg p (ms @ [m]) =
     (follows_chain cfg p ms \<and> (if ms = [] then p else last ms) \<in> predecessorsOf cfg m)"
  by (induction ms arbitrary: p) auto

lemma reachable_chain:
  assumes "set_listing iter" and "dict_ok cfg"
  shows "reachable cfg iter s \<Longrightarrow> follows_chain cfg ''START'' (sequence s)"
proof (induction rule: reachable.induct)
  case reachable_initial
  show ?case by (simp add: initial_state_def)
next
  case (reachable_expand s s')
  from reachable_expand.hyps(2) show ?case
  proof (rule expand_state_cases)
    fix move
    assume "move \<in> set (get_valid_next_moves cfg iter
                    (if sequence s = [] then ''START'' else last (sequence s))
                    (goals_completed s) (sequence s))"
      and "sequence s' = sequence s @ [move]"
    with reachable_expand.IH valid_next_move_precedes [OF assms]
    show ?thesis by (simp add: follows_chain_snoc)
  qed
qed

lemma follows_chain_nth:
  "follows_chain cfg p ms \<Longrightarrow>
     (ms \<noteq> [] \<longrightarrow> p \<in> predecessorsOf cfg (hd ms)) \<and>
     (\<forall>i. Suc i < length ms \<longrightarrow> ms ! i \<in> predecessorsOf cfg (ms ! Suc i))"
proof (induction ms arbitrary: p)
  case Nil
  then show ?case by simp
next
  case (Cons m ms)
  from Cons.prems have "follows_chain cfg m ms"
    by simp
  then have IH: "(ms \<noteq> [] \<longrightarrow> m \<in> predecessorsOf cfg (hd ms)) \<and>
     (\<forall>i. Suc i < length ms \<longrightarrow> ms ! i \<in> predecessorsOf cfg (ms ! Suc i))"
    by (rule Cons.IH)
  have "(m # ms) ! i \<in> predecessorsOf cfg ((m # ms) ! Suc i)" if "Suc i < length (m # ms)" for i
  proof (cases i)
    case 0
    with that IH show ?thesis by (cases ms) auto
  next
    case (Suc j)
    with that IH show ?thesis by simp
  qed
  with Cons.prems show ?case by simp
qed

subsection \<open>Runs on concrete configurations\<close>

lemmas scenario_simps =
  scenario_config_def State_def compute_heuristic_def get_move_duration_def can_follow_def
  dict_subscript_def recent_moves_def repeats_too_much_def catalog_items_def
  get_valid_next_moves_def expand_state_def is_valid_solution_def entry_key_def heappush_def
  initial_state_def initial_search_def loop_body_def run_search_def find_choreography_def
  Let_def

lemmas repeat_simps = repeat_config_def scenario_simps(2-)

lemmas tie_simps = tie_config_def scenario_simps(2-)

lemma scenario_first_expansion:
  "expand_state scenario_config remdups (initial_state scenario_config) =
     [State scenario_config [''A''] 1 2 0]"
  by (simp add: scenario_simps)

lemma scenario_second_expansion:
  "expand_state scenario_config remdups (State scenario_config [''A''] 1 2 0) =
     [State scenario_config [''A'', ''B''] 2 5 0]"
  by (simp add: scenario_simps)

lemma scenario_found:
  "find_choreography scenario_config remdups = (Some (State scenario_config [''A'', ''B''] 2 5 0), [])"
  by (simp add: scenario_simps search_loop.simps)

lemma scenario_reachable:
  "reachable scenario_config remdups (State scenario_config [''A''] 1 2 0)"
  using reachable_expand [OF reachable_initial, of _ scenario_config remdups]
  by (simp add: scenario_first_expansion)

lemma scenario_before_solution:
  "loop_body scenario_config remdups
     (loop_body scenario_config remdups (initial_search scenario_config)) =
   \<lparr> pq = [(595, 2, State scenario_config [''A'', ''B''] 2 5 0)], counter = 3,
     visited = {([''A''], 1), ([], 0)}, expansions = 2, all_solutions = [],
     best_solution = None \<rparr>"
  by (simp add: scenario_simps)

lemma dead_end_first_step:
  "loop_body dead_end_config remdups (initial_search dead_end_config) =
   \<lparr> pq = [(10095, 1, State dead_end_config [''A''] 1 2 0)], counter = 2,
     visited = {([], 0)}, expansions = 1, all_solutions = [], best_solution = None \<rparr>"
  by (simp add: dead_end_config_def scenario_simps)

lemma set_listing_remdups: "set_listing remdups"
  by (simp add: set_listing_def)

lemma set_listing_rev_remdups: "set_listing (rev \<circ> remdups)"
  by (simp add: set_listing_def)

lemma dict_ok_scenario: "dict_ok scenario_config"
  by (simp add: dict_ok_def scenario_config_def)


subsection \<open>Goals completed\<close>

text \<open>
  Claim C1. For every state that repeated expansion reaches from the initial state,
  \<open>goals_completed\<close> is the length of the longest prefix of the goal list that is a
  subsequence (in order, not necessarily contiguous) of the state's sequence. Expanding a
  state appends one move, and \<open>goals_completed\<close> grows by one if and only if that move is
  \<open>goals[goals_completed]\<close>; otherwise it stays. Every solution that the search returns,
  the best one or an alternative, contains the whole goal list as a subsequence and has
  \<open>goals_completed = len(goals)\<close>.
\<close>

theorem goals_completed_longest_prefix:
  "(reachable cfg iter s \<longrightarrow>
      goals_completed s = longest_goal_prefix (goals cfg) (sequence s)) \<and>
   (s' \<in> set (expand_state cfg iter s) \<longrightarrow>
      (\<exists>move. sequence s' = sequence s @ [move] \<and>
         (goals_completed s' = goals_completed s + 1 \<longleftrightarrow>
            goals_completed s < length (goals cfg) \<and> move = goals cfg ! goals_completed s) \<and>
         (goals_completed s' \<noteq> goals_completed s + 1 \<longrightarrow> goals_completed s' = goals_completed s))) \<and>
   (find_choreography cfg iter = (best, alts) \<and> sol \<in> set_option best \<union> set alts \<longrightarrow>
      subseq (goals cfg) (sequence sol) \<and> goals_completed sol = length (goals cfg))"
proof (intro conjI impI)
  assume "reachable cfg iter s"
  then show "goals_completed s = longest_goal_prefix (goals cfg) (sequence s)"
    by (simp add: reachable_goal_match longest_goal_prefix_eq)
next
  assume "s' \<in> set (expand_state cfg iter s)"
  then show "\<exists>move. sequence s' = sequence s @ [move] \<and>
         (goals_completed s' = goals_completed s + 1 \<longleftrightarrow>
            goals_completed s < length (goals cfg) \<and> move = goals cfg ! goals_completed s) \<and>
         (goals_completed s' \<noteq> goals_completed s + 1 \<longrightarrow> goals_completed s' = goals_completed s)"
    by (rule expand_state_cases) auto
next
  assume a: "find_choreography cfg iter = (best, alts) \<and> sol \<in> set_option best \<union> set alts"
  then have e: "explored cfg iter sol" and v: "is_valid_solution cfg sol"
    using produced_solution [of cfg iter best alts sol] by auto
  from e have m: "goals_completed sol = goal_match (goals cfg) (sequence sol)"
    by (rule reachable_goal_match [OF explored_reachable])
  with v goal_match_le [of "goals cfg" "sequence sol"]
  show len: "goals_completed sol = length (goals cfg)"
    by (simp add: is_valid_solution_def)
  with m subseq_take_iff [of "length (goals cfg)" "goals cfg" "sequence sol"]
  show "subseq (goals cfg) (sequence sol)"
    by simp
qed

theorem goals_completed_longest_prefix_witness:
  "reachable scenario_config remdups (State scenario_config [''A''] 1 2 0) \<and>
   goals_completed (State scenario_config [''A''] 1 2 0) = 1 \<and>
   longest_goal_prefix (goals scenario_config) [''A''] = 1 \<and>
   State scenario_config [''A'', ''B''] 2 5 0
     \<in> set (expand_state scenario_config remdups (State scenario_config [''A''] 1 2 0)) \<and>
   goals scenario_config ! 1 = ''B'' \<and>
   find_choreography scenario_config remdups =
     (Some (State scenario_config [''A'', ''B''] 2 5 0), []) \<and>
   subseq (goals scenario_config) [''A'', ''B''] \<and>
   goals_completed (State scenario_config [''A'', ''B''] 2 5 0) = length (goals scenario_config)"
  using goals_completed_longest_prefix
          [of scenario_config remdups "State scenario_config [''A''] 1 2 0"
              "State scenario_config [''A'', ''B''] 2 5 0"
              "Some (State scenario_config [''A'', ''B''] 2 5 0)" "[]"
              "State scenario_config [''A'', ''B''] 2 5 0"]
        scenario_reachable scenario_second_expansion scenario_found
  by (simp add: scenario_config_def)

subsection \<open>Precedence\<close>

text \<open>
  Claim C2. In every solution that the search returns, the best one or an alternative,
  each move is preceded by one of its configured predecessors: the first move has \<open>START\<close>
  in its predecessor set, and for every adjacent pair \<open>(a, b)\<close> of the sequence \<open>a\<close> is
  in the predecessor set of \<open>b\<close>.
\<close>

theorem solutions_follow_precedence:
  "set_listing iter \<Longrightarrow> dict_ok cfg \<Longrightarrow>
   find_choreography cfg iter = (best, alts) \<Longrightarrow> sol \<in> set_option best \<union> set alts \<Longrightarrow>
     (sequence sol \<noteq> [] \<longrightarrow> ''START'' \<in> predecessorsOf cfg (hd (sequence sol))) \<and>
     (\<forall>i. Suc i < length (sequence sol) \<longrightarrow>
        sequence sol ! i \<in> predecessorsOf cfg (sequence sol ! Suc i))"
proof -
  assume it: "set_listing iter" and d: "dict_ok cfg"
    and f: "find_choreography cfg iter = (best, alts)" and s: "sol \<in> set_option best \<union> set alts"
  from f s have "explored cfg iter sol"
    using produced_solution by blast
  then have "reachable cfg iter sol"
    by (rule explored_reachable)
  then have "follows_chain cfg ''START'' (sequence sol)"
    by (rule reachable_chain [OF it d])
  then show ?thesis
    by (rule follows_chain_nth)
qed

theorem solutions_follow_precedence_witness:
  "set_listing remdups \<and> dict_ok scenario_config \<and>
   find_choreography scenario_config remdups =
     (Some (State scenario_config [''A'', ''B''] 2 5 0), []) \<and>
   ''START'' \<in> predecessorsOf scenario_config ''A'' \<and>
   ''A'' \<in> predecessorsOf scenario_config ''B''"
  using solutions_follow_precedence
          [OF set_listing_remdups dict_ok_scenario scenario_found,
           of "State scenario_config [''A'', ''B''] 2 5 0"]
        set_listing_remdups dict_ok_scenario scenario_found
  by (auto dest: spec [of _ 0])

subsection \<open>Time\<close>



subsection \<open>Solutions are not expanded\<close>

text \<open>
  Claim C10. A popped state that has completed all goals is appended to the solutions and
  is not expanded: nothing is pushed and no expansion is counted. So, for a goal list that
  is not empty, every solution that the search returns has a sequence that is not empty
  and ends with the last goal, and the goal list is not yet complete before that last move:
  no filler move comes after the final goal, whatever \<open>ALLOW_POST_FILL\<close> says.
\<close>

theorem solution_ends_at_final_goal:
  "(pq st = (p, c, cur) # rest \<and> (sequence cur, goals_completed cur) \<notin> visited st \<and>
    goals_completed cur = length (goals cfg) \<longrightarrow>
      all_solutions (loop_body cfg iter st) = all_solutions st @ [cur] \<and>
      pq (loop_body cfg iter st) = rest \<and>
      counter (loop_body cfg iter st) = counter st \<and>
      expansions (loop_body cfg iter st) = expansions st) \<and>
   (goals cfg \<noteq> [] \<and> find_choreography cfg iter = (best, alts) \<and>
    sol \<in> set_option best \<union> set alts \<longrightarrow>
      sequence sol \<noteq> [] \<and> last (sequence sol) = last (goals cfg) \<and>
      \<not> subseq (goals cfg) (butlast (sequence sol)))"
proof (intro conjI impI)
  assume a: "goals cfg \<noteq> [] \<and> find_choreography cfg iter = (best, alts) \<and>
             sol \<in> set_option best \<union> set alts"
  then have "explored cfg iter sol \<and> is_valid_solution cfg sol"
    using produced_solution [of cfg iter best alts sol] by simp
  with a have "sequence sol \<noteq> [] \<and> last (sequence sol) = last (goals cfg) \<and>
      \<not> subseq (goals cfg) (butlast (sequence sol))"
    using explored_solution_last [of cfg iter sol] by simp
  then show "sequence sol \<noteq> []" and "last (sequence sol) = last (goals cfg)"
    and "\<not> subseq (goals cfg) (butlast (sequence sol))"
    by simp_all
qed (auto simp: loop_body_def is_valid_solution_def Let_def)

theorem solution_ends_at_final_goal_witness:
  "pq (loop_body scenario_config remdups
         (loop_body scenario_config remdups (initial_search scenario_config))) =
     [(595, 2, State scenario_config [''A'', ''B''] 2 5 0)] \<and>
   all_solutions (loop_body scenario_config remdups (loop_body scenario_config remdups
         (loop_body scenario_config remdups (initial_search scenario_config)))) =
     [State scenario_config [''A'', ''B''] 2 5 0] \<and>
   expansions (loop_body scenario_config remdups (loop_body scenario_config remdups
         (loop_body scenario_config remdups (initial_search scenario_config)))) = 2 \<and>
   ALLOW_POST_FILL scenario_config \<and>
   goals scenario_config \<noteq> [] \<and>
   find_choreography scenario_config remdups =
     (Some (State scenario_config [''A'', ''B''] 2 5 0), []) \<and>
   last [''A'', ''B''] = last (goals scenario_config) \<and>
   \<not> subseq (goals scenario_config) (butlast [''A'', ''B''])"
  using solution_ends_at_final_goal
          [of "loop_body scenario_config remdups
                 (loop_body scenario_config remdups (initial_search scenario_config))"
              595 2 "State scenario_config [''A'', ''B''] 2 5 0" "[]" scenario_config remdups
              "Some (State scenario_config [''A'', ''B''] 2 5 0)" "[]"
              "State scenario_config [''A'', ''B''] 2 5 0"]
        scenario_found
  by (simp add: scenario_before_solution) (simp add: scenario_config_def)

subsection \<open>What counts as an expansion\<close>

text \<open>
  Claim C7, as the code has it. The counter \<open>expansions\<close> grows by one for every popped
  state that is neither visited already nor a solution. A popped state whose key is in
  the visited set is dropped without counting. A popped state with
  \<open>len(sequence) >= MAX_STEPS\<close> that is neither visited nor a solution gets no successors,
  and the counter grows all the same.
\<close>

theorem expansions_counted:
  "pq st = (p, c, cur) # rest \<Longrightarrow>
     expansions (loop_body cfg iter st) =
       (if (sequence cur, goals_completed cur) \<in> visited st \<or> is_valid_solution cfg cur
        then expansions st else expansions st + 1) \<and>
     (MAX_STEPS cfg \<le> length (sequence cur) \<and>
      (sequence cur, goals_completed cur) \<notin> visited st \<and> \<not> is_valid_solution cfg cur \<longrightarrow>
        pq (loop_body cfg iter st) = rest \<and>
        expansions (loop_body cfg iter st) = expansions st + 1)"
  by (auto simp: loop_body_def Let_def expand_state_def split: prod.splits)

theorem expansions_counted_witness:
  "pq (loop_body dead_end_config remdups (initial_search dead_end_config)) =
     [(10095, 1, State dead_end_config [''A''] 1 2 0)] \<and>
   MAX_STEPS dead_end_config \<le> length [''A''] \<and>
   ([''A''], 1) \<notin> visited (loop_body dead_end_config remdups (initial_search dead_end_config)) \<and>
   \<not> is_valid_solution dead_end_config (State dead_end_config [''A''] 1 2 0) \<and>
   pq (loop_body dead_end_config remdups
         (loop_body dead_end_config remdups (initial_search dead_end_config))) = [] \<and>
   expansions (loop_body dead_end_config remdups
         (loop_body dead_end_config remdups (initial_search dead_end_config))) = 1 + 1"
  using expansions_counted
          [of "loop_body dead_end_config remdups (initial_search dead_end_config)"
              10095 1 "State dead_end_config [''A''] 1 2 0" "[]" dead_end_config remdups]
  by (simp add: dead_end_first_step) (simp add: dead_end_config_def scenario_simps)

text \<open>
  With at most one move per sequence, the state \<open>["A"]\<close> is popped second; it is a dead
  end, and popping it takes the counter from 1 to 2.
\<close>

theorem dead_end_counted_counterexample:
  "pq (loop_body dead_end_config remdups (initial_search dead_end_config)) =
     [(10095, 1, State dead_end_config [''A''] 1 2 0)] \<and>
   MAX_STEPS dead_end_config \<le> length (sequence (State dead_end_config [''A''] 1 2 0)) \<and>
   expansions (loop_body dead_end_config remdups (initial_search dead_end_config)) = 1 \<and>
   expansions (loop_body dead_end_config remdups
         (loop_body dead_end_config remdups (initial_search dead_end_config))) = 2 \<and>
   expansions (run_search dead_end_config remdups) = 2"
  by (simp add: dead_end_config_def scenario_simps search_loop.simps)

subsection \<open>Consecutive repetitions\<close>

text \<open>
  The repetition test does its work where the goal list has no two equal neighbours and
  the limit is positive: then no reachable sequence, and so no solution, holds a move more
  than \<open>MAX_CONSECUTIVE_REPEATS\<close> times running.
\<close>

lemma reachable_last_not_next_goal:
  assumes adj: "\<forall>i. Suc i < length (goals cfg) \<longrightarrow> goals cfg ! i \<noteq> goals cfg ! Suc i"
    and r: "reachable cfg iter s"
    and ne: "sequence s \<noteq> []" and lt: "goals_completed s < length (goals cfg)"
  shows "last (sequence s) \<noteq> goals cfg ! goals_completed s"
  using r
proof (cases rule: reachable.cases)
  case reachable_initial
  with ne show ?thesis by (simp add: initial_state_def)
next
  case (reachable_expand p)
  from reachable_expand(2) obtain move where
    seq: "sequence s = sequence p @ [move]" and
    gc: "goals_completed s =
           (if goals_completed p < length (goals cfg) \<and> move = goals cfg ! goals_completed p
            then goals_completed p + 1 else goals_completed p)"
    by (rule expand_state_cases)
  show ?thesis
  proof (cases "goals_completed p < length (goals cfg) \<and> move = goals cfg ! goals_completed p")
    case True
    with gc lt adj have "goals cfg ! goals_completed p \<noteq> goals cfg ! goals_completed s"
      by simp
    with True seq show ?thesis by simp
  next
    case False
    with gc lt seq show ?thesis by simp
  qed
qed

lemma guarded_candidate_is_goal:
  assumes "set_listing iter"
    and "move \<in> set (get_valid_next_moves cfg iter cur gc seq)"
    and "repeats_too_much cfg seq move"
  shows "gc < length (goals cfg) \<and> move = goals cfg ! gc"
proof -
  from assms(1) have it: "\<And>xs. set (iter xs) = set xs"
    by (simp add: set_listing_def)
  from assms(2,3) show ?thesis
    by (auto simp: get_valid_next_moves_def Let_def it split: if_splits)
qed

lemma suffix_replicate_repeats:
  assumes "0 < MAX_CONSECUTIVE_REPEATS cfg"
    and "suffix (replicate (MAX_CONSECUTIVE_REPEATS cfg) m) seq"
  shows "repeats_too_much cfg seq m \<and> seq \<noteq> [] \<and> last seq = m"
proof -
  from assms(2) obtain zs where seq: "seq = zs @ replicate (MAX_CONSECUTIVE_REPEATS cfg) m"
    by (auto simp: suffix_def)
  with assms(1) show ?thesis
    by (auto simp: repeats_too_much_def recent_moves_def list_all_iff)
qed

lemma reachable_no_long_run:
  assumes it: "set_listing iter" and pos: "0 < MAX_CONSECUTIVE_REPEATS cfg"
    and adj: "\<forall>i. Suc i < length (goals cfg) \<longrightarrow> goals cfg ! i \<noteq> goals cfg ! Suc i"
  shows "reachable cfg iter s \<Longrightarrow>
         \<not> sublist (replicate (Suc (MAX_CONSECUTIVE_REPEATS cfg)) m) (sequence s)"
proof (induction rule: reachable.induct)
  case reachable_initial
  show ?case by (simp add: initial_state_def)
next
  case (reachable_expand s s')
  from reachable_expand.hyps(2) show ?case
  proof (rule expand_state_cases)
    fix move
    assume cand: "move \<in> set (get_valid_next_moves cfg iter
                    (if sequence s = [] then ''START'' else last (sequence s))
                    (goals_completed s) (sequence s))"
      and seq: "sequence s' = sequence s @ [move]"
    have "\<not> suffix (replicate (Suc (MAX_CONSECUTIVE_REPEATS cfg)) m) (sequence s @ [move])"
    proof
      assume "suffix (replicate (Suc (MAX_CONSECUTIVE_REPEATS cfg)) m) (sequence s @ [move])"
      then have "suffix (replicate (MAX_CONSECUTIVE_REPEATS cfg) m @ [m]) (sequence s @ [move])"
        by (simp only: replicate_append_same replicate_Suc)
      then have m: "m = move" and suf: "suffix (replicate (MAX_CONSECUTIVE_REPEATS cfg) m) (sequence s)"
        by auto
      from suffix_replicate_repeats [OF pos suf]
      have rep: "repeats_too_much cfg (sequence s) move" and ne: "sequence s \<noteq> []"
        and last: "last (sequence s) = move"
        using m by simp_all
      from guarded_candidate_is_goal [OF it cand rep]
      have lt: "goals_completed s < length (goals cfg)"
        and g: "move = goals cfg ! goals_completed s"
        by simp_all
      from reachable_last_not_next_goal [OF adj reachable_expand.hyps(1) ne lt] last g
      show False by simp
    qed
    with reachable_expand.IH seq show ?thesis
      by (simp add: sublist_snoc)
  qed
qed

lemma solutions_no_long_run:
  assumes "set_listing iter" and "0 < MAX_CONSECUTIVE_REPEATS cfg"
    and "\<forall>i. Suc i < length (goals cfg) \<longrightarrow> goals cfg ! i \<noteq> goals cfg ! Suc i"
    and "find_choreography cfg iter = (best, alts)" and "sol \<in> set_option best \<union> set alts"
  shows "\<not> sublist (replicate (Suc (MAX_CONSECUTIVE_REPEATS cfg)) m) (sequence sol)"
proof -
  from assms(4,5) have "explored cfg iter sol"
    using produced_solution by blast
  then have "reachable cfg iter sol"
    by (rule explored_reachable)
  then show ?thesis
    by (rule reachable_no_long_run [OF assms(1-3)])
qed

text \<open>
  Claim C5 says that no solution repeats a move more than \<open>MAX_CONSECUTIVE_REPEATS\<close>
  times running and that the candidate generator leaves out a move that the last
  \<open>MAX_CONSECUTIVE_REPEATS\<close> entries of the sequence all equal. The test for repetitions
  sits in the loop over the catalog only; the next goal is added before that loop without
  it. For the goal list \<open>["A", "A", "A", "A"]\<close> and the limit 3, the generator offers
  \<open>A\<close> after \<open>["A", "A", "A"]\<close>, and the best solution repeats \<open>A\<close> four times.
\<close>

theorem repeated_goal_exceeds_limit:
  "MAX_CONSECUTIVE_REPEATS repeat_config = 3 \<and>
   get_valid_next_moves repeat_config remdups ''A'' 3 [''A'', ''A'', ''A''] = [''A''] \<and>
   find_choreography repeat_config remdups =
     (Some (State repeat_config [''A'', ''A'', ''A'', ''A''] 4 20 0), [])"
  by (simp add: repeat_simps search_loop.simps)

subsection \<open>Determinism\<close>

text \<open>
  Claim C6 says that two runs on the same catalog, goal list and constants return the
  same best solution and the same alternatives. The candidates are returned as
  \<open>list(set(valid_moves))\<close>, in the iteration order of a set of strings. On the
  configuration with two ways to the goal, two such orders give different best solutions
  and the alternatives in different order.
\<close>

theorem search_depends_on_set_order:
  "set_listing remdups \<and> set_listing (rev \<circ> remdups) \<and>
   find_choreography tie_config remdups =
     (Some (State tie_config [''A'', ''G''] 1 10 1),
      [State tie_config [''A'', ''G''] 1 10 1, State tie_config [''B'', ''G''] 1 10 1]) \<and>
   find_choreography tie_config (rev \<circ> remdups) =
     (Some (State tie_config [''B'', ''G''] 1 10 1),
      [State tie_config [''B'', ''G''] 1 10 1, State tie_config [''A'', ''G''] 1 10 1])"
  by (simp add: set_listing_remdups set_listing_rev_remdups)
     (simp add: tie_simps search_loop.simps)

subsection \<open>The priority of a state\<close>

text \<open>
  Claim C3. In the three-tier variant (\<^verbatim>\<open>main.py\<close>) the priority of every state is
  the sum of a goal penalty, a filler penalty and a time penalty. The goal penalty is the
  number of goals still to do times 10000. The filler penalty is \<open>(5 - filler_moves) * 100\<close>
  when all goals are done and fewer than 5 filler moves were appended, and zero (only)
  otherwise. The time penalty is the distance of the projected final time, the time spent
  plus the heuristic, to the window from \<open>MIN_TIME\<close> to \<open>MAX_TIME\<close>: zero exactly when
  the projected time lies in the window. The heuristic is the sum of the durations of the
  goals still to do.
\<close>

theorem three_tier_priority:
  "variant cfg = ThreeTier \<Longrightarrow>
   (let s = State cfg seq gc t f;
        goal_penalty = of_int (int (length (goals cfg)) - int gc) * 10000;
        filler_penalty =
          (if gc = length (goals cfg) \<and> f < 5 then (5 - real f) * 100 else 0);
        projected = total_time s + heuristic_value s;
        time_penalty =
          (if projected < MIN_TIME cfg then MIN_TIME cfg - projected
           else if MAX_TIME cfg < projected then projected - MAX_TIME cfg
           else 0)
    in priority s = goal_penalty + filler_penalty + time_penalty \<and>
       heuristic_value s = (\<Sum>g\<leftarrow>drop gc (goals cfg). get_move_duration cfg g) \<and>
       (filler_penalty \<noteq> 0 \<longleftrightarrow> gc = length (goals cfg) \<and> f < 5) \<and>
       (time_penalty = 0 \<longleftrightarrow> MIN_TIME cfg \<le> projected \<and> projected \<le> MAX_TIME cfg))"
  by (auto simp: State_def Let_def compute_heuristic_def get_move_duration_def)

theorem three_tier_priority_witness:
  "variant scenario_config = ThreeTier \<and>
   priority (State scenario_config [''A'', ''B''] 2 5 0) = 0 + 500 + 95 \<and>
   heuristic_value (State scenario_config [''A''] 1 2 0) = 3 \<and>
   priority (State scenario_config [''A''] 1 2 0) = 10000 + 0 + 95"
  using three_tier_priority [of scenario_config "[''A'', ''B'']" 2 5 0]
        three_tier_priority [of scenario_config "[''A'']" 1 2 0]
  by (simp add: scenario_config_def Let_def get_move_duration_def State_def compute_heuristic_def)



subsection \<open>Moves that the catalog does not know\<close>

text \<open>
  Claim C8, as the code has it. For a target move that is not a key of \<open>predecessors\<close>,
  \<open>can_follow\<close> returns \<open>False\<close>, the value it returns for a transition that the
  catalog forbids; it raises nothing.
\<close>

theorem can_follow_absent:
  "next_move \<notin> fst ` set (predecessors cfg) \<Longrightarrow> can_follow cfg prev_move next_move = Inr False"
  by (simp add: can_follow_def)

theorem can_follow_absent_witness:
  "''C'' \<notin> fst ` set (predecessors scenario_config) \<and>
   can_follow scenario_config ''A'' ''C'' = Inr False"
  using can_follow_absent [of "''C''" scenario_config "''A''"]
  by (simp add: scenario_config_def)

text \<open>
  With the tables of \<^verbatim>\<open>main.py\<close>, the move \<open>Moonwalk\<close> is in no table, and asking whether
  it may start a sequence returns \<open>False\<close> and no error: the answer for \<open>Hello\<close>, which
  is in the table and may not start a sequence.
\<close>

theorem can_follow_unknown_counterexample:
  "''Moonwalk'' \<notin> fst ` set (predecessors main_config) \<and>
   can_follow main_config ''START'' ''Moonwalk'' = Inr False \<and>
   ''Hello'' \<in> fst ` set (predecessors main_config) \<and>
   can_follow main_config ''START'' ''Hello'' = Inr False"
  by (simp add: can_follow_def dict_subscript_def main_config_def main_predecessors_def)

end
